theory Spec2Isabelle
  imports Main "HOL-Library.Sublist" "HOL-Library.Multiset"
begin

section \<open>Data model\<close>

text \<open>
  The schema snapshot of \<^verbatim>\<open>snapshot-client.ts\<close>. The interfaces \<^verbatim>\<open>Collection\<close>,
  \<^verbatim>\<open>Field\<close>, \<^verbatim>\<open>Relation\<close> and \<^verbatim>\<open>Snapshot\<close> are imported from \<^verbatim>\<open>./interfaces\<close>; the
  code reads the properties \<^verbatim>\<open>collection\<close> and \<^verbatim>\<open>field\<close> only, every other property is
  carried along as an opaque payload of type \<open>'a\<close>. The rest of the snapshot
  (\<^verbatim>\<open>const { collections, fields, relations, ...info } = data\<close>) is \<open>s_info\<close>.
\<close>

record 'a Collection =
  collection :: string
  c_rest :: 'a

record 'a Field =
  f_collection :: string
  field :: string
  f_rest :: 'a

record 'a Relation =
  r_collection :: string
  r_field :: string
  r_rest :: 'a

record 'a Snapshot =
  s_collections :: "'a Collection list"
  s_fields :: "'a Field list"
  s_relations :: "'a Relation list"
  s_info :: 'a


datatype error = ENOENT "string list" | MalformedDump | Thrown string

subsection \<open>Paths and the file system\<close>

text \<open>
  A normalised absolute path is the list of its segments below the root. \<^verbatim>\<open>path.join\<close>
  appends a relative path string to it and normalises: the string is split at \<^verbatim>\<open>/\<close>,
  empty and \<^verbatim>\<open>.\<close> segments are dropped and \<^verbatim>\<open>..\<close> removes the segment before it (at
  the root it stays at the root). \<^verbatim>\<open>path.dirname\<close> drops the last segment.
\<close>

type_synonym path = "string list"










subsection \<open>Effects: the trace of calls and the state\<close>

text \<open>
  Every call to the outside leaves an event in the trace: a log line, a call of
  \<^verbatim>\<open>migrationClient.getClient()\<close>, a request sent with \<^verbatim>\<open>directus.request\<close>, a
  \<^verbatim>\<open>cleanUp()\<close> or \<^verbatim>\<open>restore()\<close> of a collection (with what it returned or raised),
  a call of one of the handlers of the top-level promise chain.
  \<open>'d\<close> is the type of a schema diff, \<open>'r\<close> the state of everything outside the file
  system: the remote instance and what the collections keep in memory.
\<close>

datatype ('a, 'd) request = SchemaSnapshot | SchemaDiff "'a Snapshot" | SchemaApply 'd

datatype logmsg =
    Saved nat path
  | NoChangesToApply
  | ChangesApplied
  | RestoreSchema
  | CleanUpCollections
  | RestoreIteration nat

datatype level = Info | Debug

datatype ('a, 'd) event =
    Log level logmsg
  | GetClient
  | Request "('a, 'd) request"
  | CleanUp string "error + unit"
  | Restore string "error + bool"
  | InitContext
  | LogErrorAndStop error
  | DisposeContext
  | LogEndAndClose




section \<open>The Snapshot Client\<close>











text \<open>
  \<^verbatim>\<open>dump\<close> has no \<^verbatim>\<open>return\<close>: its promise resolves to \<^verbatim>\<open>undefined\<close>. The number of
  files goes to the debug log.
\<close>

datatype js_value = Undefined | Number nat













section \<open>The Restore Driver\<close>






text \<open>
  The first \<open>n\<close> passes of the loop, to observe a run that may not end: \<open>Running\<close>
  when the loop is still going after \<open>n\<close> passes.
\<close>

datatype status = Running | Converged | Failed error





section \<open>The Collection Restorer of the specification\<close>










section \<open>Reading a trace\<close>

text \<open>The \<^verbatim>\<open>cleanUp()\<close> and \<^verbatim>\<open>restore()\<close> calls of a trace, in order.\<close>

datatype call = CleanUpCall string | RestoreCall string

fun call_of :: "('a, 'd) event \<Rightarrow> call list" where
  "call_of (CleanUp n _) = [CleanUpCall n]"
| "call_of (Restore n _) = [RestoreCall n]"
| "call_of _ = []"

definition calls :: "('a, 'd) event list \<Rightarrow> call list" where
  "calls evs = concat (map call_of evs)"






section \<open>Input validation\<close>

text \<open>
  \<^verbatim>\<open>validateInput\<close> of the HTTP helpers. \<^verbatim>\<open>zodSchema.parse\<close> is a parameter: it returns
  the parsed value or throws. What it throws is any JavaScript value: a \<^verbatim>\<open>ZodError\<close>
  with its issues, another non-null value (whose \<^verbatim>\<open>message\<close> property is a string or
  something else, \<^verbatim>\<open>undefined\<close> included), or \<^verbatim>\<open>null\<close>/\<^verbatim>\<open>undefined\<close>, on which reading
  \<^verbatim>\<open>error.message\<close> raises a \<^verbatim>\<open>TypeError\<close>. The elements of an issue's path are taken as
  the strings \<^verbatim>\<open>join\<close> turns them into.
\<close>

record issue =
  issue_path :: "string list"
  issue_message :: string

datatype js_message = MString string | MOther

datatype thrown = ZodError "issue list" | Object js_message | Nullish

datatype raised = HttpError nat string | TypeError

text \<open>\<^verbatim>\<open>Array.prototype.join\<close> on strings.\<close>

fun array_join :: "string \<Rightarrow> string list \<Rightarrow> string" where
  "array_join sep [] = []"
| "array_join sep [x] = x"
| "array_join sep (x # y # ys) = x @ sep @ array_join sep (y # ys)"

definition issue_line :: "issue \<Rightarrow> string" where
  "issue_line e = ''['' @ array_join '','' (issue_path e) @ ''] '' @ issue_message e"

definition aggregate :: "issue list \<Rightarrow> string" where
  "aggregate issues = array_join ''. '' (map issue_line issues)"

text \<open>
  \<^verbatim>\<open>createError\<close> of \<^verbatim>\<open>http-errors\<close> is a parameter; \<open>createError_spec\<close> is what the
  library documents for a status and a string message.
\<close>

definition createError_spec :: "(nat \<Rightarrow> js_message \<Rightarrow> raised) \<Rightarrow> bool" where
  "createError_spec createError \<longleftrightarrow> (\<forall>status m. createError status (MString m) = HttpError status m)"

definition validateInput ::
  "(nat \<Rightarrow> js_message \<Rightarrow> raised) \<Rightarrow> ('p \<Rightarrow> thrown + 'v) \<Rightarrow> 'p \<Rightarrow> raised + 'v" where
  "validateInput createError parse params =
     (case parse params of
        Inr v \<Rightarrow> Inr v
      | Inl error \<Rightarrow>
          (case error of
             ZodError issues \<Rightarrow> Inl (createError 400 (MString (aggregate issues)))
           | Object message \<Rightarrow> Inl (createError 400 message)
           | Nullish \<Rightarrow> Inl TypeError))"

section \<open>Example runs\<close>




















text \<open>A \<^verbatim>\<open>createError\<close> and a schema for \<^verbatim>\<open>validateInput\<close>.\<close>

definition createError0 :: "nat \<Rightarrow> js_message \<Rightarrow> raised" where
  "createError0 status m = (case m of MString s \<Rightarrow> HttpError status s | MOther \<Rightarrow> TypeError)"

definition parse_number :: "string \<Rightarrow> thrown + nat" where
  "parse_number s =
     (if s = ''42'' then Inr 42
      else if s = '''' then Inl (Object (MString ''boom''))
      else Inl (ZodError [\<lparr>issue_path = [''query'', ''limit''], issue_message = ''Expected number''\<rparr>,
                          \<lparr>issue_path = [], issue_message = ''Required''\<rparr>]))"









section \<open>The restore loop and its first passes\<close>





section \<open>What a run adds to the trace\<close>


lemma calls_Nil [simp]: "calls [] = []"
  by (simp add: calls_def)

















section \<open>What saving a snapshot does to the file system\<close>














lemma validateInput_nullish:
  "parse params = Inl Nullish \<Longrightarrow> validateInput createError parse params = Inl TypeError"
  by (simp add: validateInput_def)

lemma aggregate_not_boom: "aggregate issues \<noteq> ''boom''"
proof (cases issues)
  case Nil
  then show ?thesis by (simp add: aggregate_def)
next
  case (Cons i rest)
  then show ?thesis
    by (cases rest) (simp_all add: aggregate_def issue_line_def)
qed

section \<open>Reloading a dump\<close>






















section \<open>Passes over a chain of collections\<close>









section \<open>The claims\<close>



















text \<open>
  C10, as the code has it. \<^verbatim>\<open>validateInput\<close> returns a value exactly when
  \<^verbatim>\<open>zodSchema.parse\<close> returns it. When \<^verbatim>\<open>parse\<close> throws a \<^verbatim>\<open>ZodError\<close>, it throws an HTTP
  error with status 400 whose message joins the issues as \<^verbatim>\<open>[path] message\<close> with
  \<^verbatim>\<open>". "\<close>; when \<^verbatim>\<open>parse\<close> throws another object whose \<^verbatim>\<open>message\<close> is a string, it
  throws an HTTP error with status 400 and that message.
\<close>

theorem validateInput_result:
  assumes "createError_spec createError"
  shows "(\<forall>v. validateInput createError parse params = Inr v \<longleftrightarrow> parse params = Inr v) \<and>
         (\<forall>issues. parse params = Inl (ZodError issues) \<longrightarrow>
            validateInput createError parse params = Inl (HttpError 400 (aggregate issues))) \<and>
         (\<forall>m. parse params = Inl (Object (MString m)) \<longrightarrow>
            validateInput createError parse params = Inl (HttpError 400 m))"
  using assms
  by (auto simp: validateInput_def createError_spec_def split: sum.splits thrown.splits)

theorem validateInput_result_witness:
  "createError_spec createError0 \<and>
   validateInput createError0 parse_number ''42'' = Inr 42 \<and>
   validateInput createError0 parse_number ''x'' =
     Inl (HttpError 400 ''[query,limit] Expected number. [] Required'')"
proof -
  have h: "createError_spec createError0"
    by (simp add: createError_spec_def createError0_def)
  have z: "parse_number ''x'' = Inl (ZodError [\<lparr>issue_path = [''query'', ''limit''], issue_message = ''Expected number''\<rparr>,
                          \<lparr>issue_path = [], issue_message = ''Required''\<rparr>])"
    by (simp add: parse_number_def)
  have a: "aggregate [\<lparr>issue_path = [''query'', ''limit''], issue_message = ''Expected number''\<rparr>,
                          \<lparr>issue_path = [], issue_message = ''Required''\<rparr>]
        = ''[query,limit] Expected number. [] Required''"
    by (simp add: aggregate_def issue_line_def)
  have p: "parse_number ''42'' = Inr 42" by (simp add: parse_number_def)
  from validateInput_result [OF h, of parse_number "''42''"] p
  have 1: "validateInput createError0 parse_number ''42'' = Inr 42" by simp
  from validateInput_result [OF h, of parse_number "''x''"] z a
  have 2: "validateInput createError0 parse_number ''x'' =
     Inl (HttpError 400 ''[query,limit] Expected number. [] Required'')" by simp
  from h 1 2 show ?thesis by simp
qed

text \<open>
  C10 fails as stated: when \<^verbatim>\<open>parse\<close> throws an error that is not a \<^verbatim>\<open>ZodError\<close>, the
  message of the HTTP error is that error's own message, which aggregates no validation
  issues.
\<close>

theorem other_error_message_counterexample:
  "validateInput createError0 parse_number '''' = Inl (HttpError 400 ''boom'') \<and>
   (\<forall>issues. aggregate issues \<noteq> ''boom'')"
  by (simp add: validateInput_def createError0_def parse_number_def aggregate_not_boom)






end
